theory Spec2Isabelle
  imports Main
begin

section \<open>Strings of the source language\<close>

text \<open>
  Strings are character lists. The model covers the code units 0 to 255; the characters
  that \<^verbatim>\<open>String.prototype.trim\<close> strips in that range are tab, line feed,
  vertical tab, form feed, carriage return, space and the no-break space.
\<close>

definition isSpace :: "char \<Rightarrow> bool" where
  "isSpace c = (c \<in> set [CHR 0x09, CHR 0x0A, CHR 0x0B, CHR 0x0C, CHR 0x0D, CHR 0x20, CHR 0xA0])"

text \<open>\<^verbatim>\<open>s.trim()\<close>: white space removed at both ends.\<close>

definition trim :: "string \<Rightarrow> string" where
  "trim s = rev (dropWhile isSpace (rev (dropWhile isSpace s)))"

text \<open>The character classes \<^verbatim>\<open>[A-Z]\<close> and \<^verbatim>\<open>\d\<close> of the identifier pattern.\<close>

definition isUpper :: "char \<Rightarrow> bool" where
  "isUpper c = (c \<in> set ''ABCDEFGHIJKLMNOPQRSTUVWXYZ'')"

definition isDigit :: "char \<Rightarrow> bool" where
  "isDigit c = (c \<in> set ''0123456789'')"

text \<open>
  \<^verbatim>\<open>/^[A-Z]{2,3}\d{3}$/.test(v)\<close>: the whole string is two or three capital letters
  followed by three digits.
\<close>

definition idFormat :: "string \<Rightarrow> bool" where
  "idFormat v =
     ((length v = 5 \<and> list_all isUpper (take 2 v) \<and> list_all isDigit (drop 2 v)) \<or>
      (length v = 6 \<and> list_all isUpper (take 3 v) \<and> list_all isDigit (drop 3 v)))"

text \<open>\<^verbatim>\<open>String(n)\<close> for a non-negative integer: its decimal digits.\<close>

definition digitChar :: "nat \<Rightarrow> char" where
  "digitChar d = ''0123456789'' ! d"

function String_nat :: "nat \<Rightarrow> string" where
  "String_nat n =
     (if n < 10 then [digitChar n] else String_nat (n div 10) @ [digitChar (n mod 10)])"
  by pat_completeness auto
termination
  by (relation "measure (\<lambda>n. n)") auto

declare String_nat.simps [simp del]

text \<open>\<^verbatim>\<open>s.padStart(n, c)\<close> with a pad string of one character.\<close>

definition padStart :: "nat \<Rightarrow> char \<Rightarrow> string \<Rightarrow> string" where
  "padStart n c s = replicate (n - length s) c @ s"

section \<open>The problem statement model and its pre-save hook\<close>

text \<open>
  A document of the \<^verbatim>\<open>ProblemStatement\<close> collection, with the paths of the schema.
  The path \<^verbatim>\<open>id\<close> is optional (\<^verbatim>\<open>required: false\<close>); it is named \<open>id'\<close> here
  because \<open>id\<close> is the identity function of HOL.
\<close>

record ProblemStatement =
  id' :: "string option"
  title :: string
  abstract :: string
  technologies :: "string list"
  domain :: string
  category :: string
  difficulty :: string
  duration :: string
  deliverables :: "string list"
  prerequisites :: "string list"
  learningOutcomes :: "string list"
  status :: string
  featured :: bool
  tags :: "string list"
  createdBy :: "string option"
  viewCount :: nat

text \<open>The validator of the path \<^verbatim>\<open>id\<close>: \<^verbatim>\<open>!v || /^[A-Z]{2,3}\d{3}$/.test(v)\<close>.\<close>

definition idValidator :: "string \<Rightarrow> bool" where
  "idValidator v = (v = [] \<or> idFormat v)"

text \<open>
  The table \<^verbatim>\<open>domainPrefixMap\<close>, and the lookup \<^verbatim>\<open>domainPrefixMap[domain] || 'GEN'\<close>.
  The table is read at its own eight keys only; the schema restricts \<^verbatim>\<open>domain\<close> to them.
\<close>

definition domainPrefixMap :: "(string \<times> string) list" where
  "domainPrefixMap =
     [(''AI & Machine Learning'', ''AIM''),
      (''IoT & Embedded Systems'', ''IOT''),
      (''Cloud Computing'', ''CLD''),
      (''Web & Mobile Applications'', ''WEB''),
      (''Cybersecurity & Blockchain'', ''CYS''),
      (''Data Science & Analytics'', ''DAT''),
      (''Networking & Communication'', ''NET''),
      (''Mechanical / ECE Projects'', ''MEC'')]"

definition domainPrefix :: "string \<Rightarrow> string" where
  "domainPrefix d = (case map_of domainPrefixMap d of Some p \<Rightarrow> p | None \<Rightarrow> ''GEN'')"

text \<open>\<^verbatim>\<open>ProblemStatement.countDocuments({ domain: d })\<close> on the stored documents.\<close>

definition countDocuments :: "ProblemStatement list \<Rightarrow> string \<Rightarrow> nat" where
  "countDocuments db d = length (filter (\<lambda>p. domain p = d) db)"

text \<open>The identifier the hook builds: prefix, then the sequence number padded to three digits.\<close>

definition generateId :: "ProblemStatement list \<Rightarrow> string \<Rightarrow> string" where
  "generateId db d =
     domainPrefix d @ padStart 3 (CHR ''0'') (String_nat (countDocuments db d + 1))"

text \<open>
  The guard of the hook, \<^verbatim>\<open>!this.id || !/^[A-Z]{2,3}\d{3}$/.test(this.id)\<close>: the
  identifier is undefined, empty, or not of the format.
\<close>

definition needsId :: "string option \<Rightarrow> bool" where
  "needsId v = (case v of None \<Rightarrow> True | Some s \<Rightarrow> s = [] \<or> \<not> idFormat s)"

text \<open>\<^verbatim>\<open>ProblemStatementSchema.pre('save', ...)\<close>, on the document \<open>this\<close>.\<close>

definition preSave :: "ProblemStatement list \<Rightarrow> ProblemStatement \<Rightarrow> ProblemStatement" where
  "preSave db this =
     (if needsId (id' this) then this\<lparr>id' := Some (generateId db (domain this))\<rparr> else this)"

text \<open>
  Saving a document: the hook runs, then the document is stored. The insertion is the
  work of the database, which is not part of the sources; it is taken to succeed.
  Saving one document after the other is the strictly sequential use of the allocator.
\<close>

definition save :: "ProblemStatement list \<Rightarrow> ProblemStatement \<Rightarrow> ProblemStatement list" where
  "save db doc = db @ [preSave db doc]"


section \<open>Bulk import\<close>

subsection \<open>Rows and their validation\<close>

text \<open>
  A parsed row: the object the CSV decoder emits, with one string property for each
  column of the header. \<^verbatim>\<open>row.title\<close> is \<open>row ''title''\<close>, and \<open>None\<close> is
  \<^verbatim>\<open>undefined\<close>.
\<close>

type_synonym Row = "string \<rightharpoonup> string"

text \<open>\<^verbatim>\<open>!v || v.trim() === ''\<close> for a property that is a string or undefined.\<close>

definition blank :: "string option \<Rightarrow> bool" where
  "blank v = (case v of None \<Rightarrow> True | Some s \<Rightarrow> s = [] \<or> trim s = [])"

text \<open>\<^verbatim>\<open>v && !valid.includes(v.trim())\<close>.\<close>

definition notIncluded :: "string list \<Rightarrow> string option \<Rightarrow> bool" where
  "notIncluded valid v = (case v of None \<Rightarrow> False | Some s \<Rightarrow> s \<noteq> [] \<and> trim s \<notin> set valid)"

text \<open>\<^verbatim>\<open>xs.join(sep)\<close>.\<close>

fun join :: "string \<Rightarrow> string list \<Rightarrow> string" where
  "join sep [] = []"
| "join sep [x] = x"
| "join sep (x # y # ys) = x @ sep @ join sep (y # ys)"

definition validDomains :: "string list" where
  "validDomains =
     [''AI & Machine Learning'',
      ''IoT & Embedded Systems'',
      ''Cloud Computing'',
      ''Web & Mobile Applications'',
      ''Cybersecurity & Blockchain'',
      ''Data Science & Analytics'',
      ''Networking & Communication'',
      ''Mechanical / ECE Projects'']"

definition validCategories :: "string list" where
  "validCategories = [''Major'', ''Minor'', ''Capstone'']"

definition validDifficulties :: "string list" where
  "validDifficulties = [''Beginner'', ''Intermediate'', ''Advanced'']"

text \<open>The messages pushed to \<^verbatim>\<open>validationErrors\<close> for one row, in the order of the checks.\<close>

definition validationErrors :: "Row \<Rightarrow> string list" where
  "validationErrors row =
     (if blank (row ''title'') then [''Title is required''] else []) @
     (if blank (row ''abstract'') then [''Abstract is required''] else []) @
     (if blank (row ''domain'') then [''Domain is required''] else []) @
     (if blank (row ''category'') then [''Category is required''] else []) @
     (if blank (row ''difficulty'') then [''Difficulty is required''] else []) @
     (if blank (row ''duration'') then [''Duration is required''] else []) @
     (if notIncluded validDomains (row ''domain'')
      then [''Invalid domain. Must be one of: '' @ join '', '' validDomains] else []) @
     (if notIncluded validCategories (row ''category'')
      then [''Invalid category. Must be one of: '' @ join '', '' validCategories] else []) @
     (if notIncluded validDifficulties (row ''difficulty'')
      then [''Invalid difficulty. Must be one of: '' @ join '', '' validDifficulties] else [])"

subsection \<open>Building the record of a row\<close>

text \<open>\<^verbatim>\<open>s.split(sep)\<close> with a separator of one character; the result is never empty.\<close>

fun splitStr :: "char \<Rightarrow> string \<Rightarrow> string list" where
  "splitStr sep [] = [[]]"
| "splitStr sep (c # cs) =
     (if c = sep then [] # splitStr sep cs
      else (case splitStr sep cs of [] \<Rightarrow> [[c]] | p # ps \<Rightarrow> (c # p) # ps))"

text \<open>The local function \<^verbatim>\<open>parseArrayField\<close>.\<close>

definition parseArrayField :: "string \<Rightarrow> string list" where
  "parseArrayField field =
     (if field = [] \<or> trim field = [] then []
      else filter (\<lambda>item. item \<noteq> []) (map trim (splitStr (CHR '';'') field)))"

text \<open>\<^verbatim>\<open>v || ''\<close> for a property that is a string or undefined.\<close>

definition orEmpty :: "string option \<Rightarrow> string" where
  "orEmpty v = (case v of None \<Rightarrow> [] | Some s \<Rightarrow> s)"

text \<open>
  \<^verbatim>\<open>s.toLowerCase()\<close>: the capital letters A to Z are mapped to small letters; every
  other character of the model is kept.
\<close>

definition toLowerChar :: "char \<Rightarrow> char" where
  "toLowerChar c =
     (case map_of (zip ''ABCDEFGHIJKLMNOPQRSTUVWXYZ'' ''abcdefghijklmnopqrstuvwxyz'') c of
        Some l \<Rightarrow> l | None \<Rightarrow> c)"

definition toLowerCase :: "string \<Rightarrow> string" where
  "toLowerCase s = map toLowerChar s"

text \<open>
  A thrown error with its \<^verbatim>\<open>message\<close> property, which may be undefined.
\<close>

datatype thrown = Thrown (message_of: "string option")

text \<open>
  \<^verbatim>\<open>v.trim()\<close> on a property that may be undefined: calling a method of
  \<^verbatim>\<open>undefined\<close> throws a TypeError.
\<close>

definition trimProp :: "string option \<Rightarrow> thrown + string" where
  "trimProp v =
     (case v of
        None \<Rightarrow> Inl (Thrown (Some ''Cannot read properties of undefined (reading 'trim')''))
      | Some s \<Rightarrow> Inr (trim s))"

text \<open>
  The object \<^verbatim>\<open>problemData\<close> of a row, as the document that
  \<^verbatim>\<open>ProblemStatement.create\<close> builds from it: \<^verbatim>\<open>id\<close> is not set and
  \<^verbatim>\<open>viewCount\<close> has its default 0. \<open>user\<close> is \<^verbatim>\<open>req.user?.id\<close>.
\<close>

definition problemData :: "string option \<Rightarrow> Row \<Rightarrow> thrown + ProblemStatement" where
  "problemData user row =
     (case trimProp (row ''title'') of Inl e \<Rightarrow> Inl e | Inr t \<Rightarrow>
      case trimProp (row ''abstract'') of Inl e \<Rightarrow> Inl e | Inr a \<Rightarrow>
      case trimProp (row ''domain'') of Inl e \<Rightarrow> Inl e | Inr d \<Rightarrow>
      case trimProp (row ''category'') of Inl e \<Rightarrow> Inl e | Inr c \<Rightarrow>
      case trimProp (row ''difficulty'') of Inl e \<Rightarrow> Inl e | Inr f \<Rightarrow>
      case trimProp (row ''duration'') of Inl e \<Rightarrow> Inl e | Inr u \<Rightarrow>
      Inr \<lparr> id' = None,
            title = t,
            abstract = a,
            technologies = parseArrayField (orEmpty (row ''technologies'')),
            domain = d,
            category = c,
            difficulty = f,
            duration = u,
            deliverables = parseArrayField (orEmpty (row ''deliverables'')),
            prerequisites = parseArrayField (orEmpty (row ''prerequisites'')),
            learningOutcomes = parseArrayField (orEmpty (row ''learningOutcomes'')),
            status = (case row ''status'' of None \<Rightarrow> ''Draft''
                      | Some s \<Rightarrow> if trim s = [] then ''Draft'' else trim s),
            featured = (case row ''featured'' of None \<Rightarrow> False
                        | Some s \<Rightarrow> toLowerCase s = ''true''),
            tags = parseArrayField (orEmpty (row ''tags'')),
            createdBy = user,
            viewCount = 0 \<rparr>)"

subsection \<open>The loop over the rows\<close>

record ImportError =
  row :: nat
  field :: string
  message :: string

record Results =
  imported :: nat
  failed :: nat
  errors :: "ImportError list"

text \<open>\<^verbatim>\<open>error.message || 'Failed to create problem statement'\<close>.\<close>

definition errorMessage :: "thrown \<Rightarrow> string" where
  "errorMessage e =
     (case message_of e of
        None \<Rightarrow> ''Failed to create problem statement''
      | Some m \<Rightarrow> if m = [] then ''Failed to create problem statement'' else m)"

text \<open>The \<^verbatim>\<open>catch\<close> block of the loop body.\<close>

definition catchRow :: "nat \<Rightarrow> thrown \<Rightarrow> Results \<Rightarrow> Results" where
  "catchRow rowNumber e res =
     res\<lparr> errors := errors res @ [\<lparr> row = rowNumber, field = ''database'', message = errorMessage e \<rparr>],
          failed := failed res + 1 \<rparr>"

text \<open>
  One iteration of the loop, for the row at index \<open>i\<close> of \<^verbatim>\<open>problems\<close>.
  \<^verbatim>\<open>ProblemStatement.create\<close> is the parameter \<open>create\<close>: from the state \<open>s\<close> of
  the storage and the record it returns the new state, and the error it throws if it
  throws one. The errors are collected in the result as the loop runs.
\<close>

definition processRow ::
  "('s \<Rightarrow> ProblemStatement \<Rightarrow> thrown option \<times> 's) \<Rightarrow> string option \<Rightarrow> nat \<Rightarrow> Row \<Rightarrow>
   's \<times> Results \<Rightarrow> 's \<times> Results" where
  "processRow create user i r st =
     (let s = fst st; res = snd st; rowNumber = i + 2 in
      if validationErrors r \<noteq> [] then
        (s, res\<lparr> errors := errors res @
                    map (\<lambda>error. \<lparr> row = rowNumber, field = ''validation'', message = error \<rparr>)
                      (validationErrors r),
                  failed := failed res + 1 \<rparr>)
      else
        (case problemData user r of
           Inl e \<Rightarrow> (s, catchRow rowNumber e res)
         | Inr data \<Rightarrow>
             (case create s data of
                (None, s') \<Rightarrow> (s', res\<lparr> imported := imported res + 1 \<rparr>)
              | (Some e, s') \<Rightarrow> (s', catchRow rowNumber e res))))"

fun bulkLoop ::
  "('s \<Rightarrow> ProblemStatement \<Rightarrow> thrown option \<times> 's) \<Rightarrow> string option \<Rightarrow> nat \<Rightarrow> Row list \<Rightarrow>
   's \<times> Results \<Rightarrow> 's \<times> Results" where
  "bulkLoop create user i [] st = st"
| "bulkLoop create user i (r # rs) st =
     bulkLoop create user (Suc i) rs (processRow create user i r st)"

definition importRows ::
  "('s \<Rightarrow> ProblemStatement \<Rightarrow> thrown option \<times> 's) \<Rightarrow> string option \<Rightarrow> Row list \<Rightarrow> 's \<Rightarrow>
   's \<times> Results" where
  "importRows create user problems s =
     bulkLoop create user 0 problems (s, \<lparr> imported = 0, failed = 0, errors = [] \<rparr>)"

subsection \<open>Decoding the file\<close>

text \<open>
  Modelled from the spec: the CSV decoder is the package \<^verbatim>\<open>csv-parser\<close>, which is not
  part of the sources. The spec describes its input as comma-separated text with a header
  row and its output as an ordered sequence of row mappings from column name to raw string.
  The model reads cells separated by commas and lines separated by line feeds; a cell may
  be enclosed in double quotes, inside which commas and line feeds are data and a doubled
  quote is one quote. The first line names the columns.
\<close>

fun csvScan :: "bool \<Rightarrow> string \<Rightarrow> string list \<Rightarrow> string \<Rightarrow> string list list" where
  "csvScan q cell cells [] = (if cell = [] \<and> cells = [] then [] else [rev (rev cell # cells)])"
| "csvScan q cell cells (c # cs) =
     (if q then
        (if c = CHR 0x22 then
           (case cs of
              [] \<Rightarrow> csvScan False cell cells cs
            | d # ds \<Rightarrow> if d = CHR 0x22 then csvScan True (d # cell) cells ds
                        else csvScan False cell cells cs)
         else csvScan True (c # cell) cells cs)
      else if c = CHR 0x22 then csvScan True cell cells cs
      else if c = CHR '','' then csvScan False [] (rev cell # cells) cs
      else if c = CHR 0x0A then rev (rev cell # cells) # csvScan False [] [] cs
      else csvScan False (c # cell) cells cs)"

text \<open>
  Modelled from the spec: the rows that the decoder emits, one for each line after the
  header. A row maps the name of a column to the cell at the position of that column; of
  two columns with the same name the later one is kept.
\<close>

definition csvParse :: "string \<Rightarrow> Row list" where
  "csvParse buf =
     (case csvScan False [] [] buf of
        [] \<Rightarrow> []
      | headers # lines \<Rightarrow> map (\<lambda>cells. map_of (rev (zip headers cells))) lines)"

subsection \<open>The two handlers\<close>

text \<open>
  \<^verbatim>\<open>bulkUploadProblems\<close>: without a file the answer is the status 400; with a file
  (its buffer as a string) the rows are decoded and imported, and the answer is the
  result of the import.
\<close>

definition bulkUploadProblems ::
  "('s \<Rightarrow> ProblemStatement \<Rightarrow> thrown option \<times> 's) \<Rightarrow> string option \<Rightarrow> string option \<Rightarrow> 's \<Rightarrow>
   (string + Results) \<times> 's" where
  "bulkUploadProblems create file user s =
     (case file of
        None \<Rightarrow> (Inl ''No CSV file uploaded'', s)
      | Some buf \<Rightarrow>
          (let st = importRows create user (csvParse buf) s in (Inr (snd st), fst st)))"








section \<open>Auxiliary definitions\<close>



text \<open>A document without an identifier.\<close>

definition exampleDoc :: ProblemStatement where
  "exampleDoc =
     \<lparr> id' = None, title = ''Edge cache'', abstract = ''A cache at the edge'',
       technologies = [''Go''], domain = ''Cloud Computing'', category = ''Minor'',
       difficulty = ''Beginner'', duration = ''4 weeks'', deliverables = [''Code''],
       prerequisites = [], learningOutcomes = [], status = ''Draft'', featured = False,
       tags = [], createdBy = Some ''u1'', viewCount = 0 \<rparr>"



text \<open>
  Every row of the list that passes the validation is stored without an error. The
  function follows the loop: the state of the storage is the one the earlier rows left.
\<close>

fun persistsAll ::
  "('s \<Rightarrow> ProblemStatement \<Rightarrow> thrown option \<times> 's) \<Rightarrow> string option \<Rightarrow> Row list \<Rightarrow> 's \<Rightarrow> bool" where
  "persistsAll create user [] s = True"
| "persistsAll create user (r # rs) s =
     (if validationErrors r \<noteq> [] then persistsAll create user rs s
      else (case problemData user r of
              Inl e \<Rightarrow> False
            | Inr data \<Rightarrow>
                (case create s data of
                   (None, s') \<Rightarrow> persistsAll create user rs s'
                 | (Some e, s') \<Rightarrow> False)))"

text \<open>
  A storage that accepts every record: \<^verbatim>\<open>create\<close> saves the document, which runs
  the pre-save hook, and does not throw.
\<close>

definition createStored ::
  "ProblemStatement list \<Rightarrow> ProblemStatement \<Rightarrow> thrown option \<times> ProblemStatement list" where
  "createStored db data = (None, save db data)"

text \<open>A storage that rejects every record with the error \<open>e\<close>.\<close>

definition createRejecting ::
  "thrown \<Rightarrow> ProblemStatement list \<Rightarrow> ProblemStatement \<Rightarrow> thrown option \<times> ProblemStatement list" where
  "createRejecting e db data = (Some e, db)"

text \<open>The object \<^verbatim>\<open>results\<close> before the loop.\<close>

definition emptyResults :: Results where
  "emptyResults = \<lparr> imported = 0, failed = 0, errors = [] \<rparr>"

text \<open>A row that passes the validation.\<close>

definition rowOk :: Row where
  "rowOk = map_of
     [(''title'', ''Edge cache''), (''abstract'', ''A cache at the edge''),
      (''domain'', ''Cloud Computing''), (''category'', ''Minor''),
      (''difficulty'', ''Beginner''), (''duration'', ''4 weeks''),
      (''technologies'', ''Go; Redis'')]"

text \<open>A row whose title is blank.\<close>

definition rowNoTitle :: Row where
  "rowNoTitle = map_of
     [(''title'', ''  ''), (''abstract'', ''A cache at the edge''),
      (''domain'', ''Cloud Computing''), (''category'', ''Minor''),
      (''difficulty'', ''Beginner''), (''duration'', ''4 weeks'')]"

text \<open>A row without a title and with a category that is not allowed.\<close>

definition rowTwoFaults :: Row where
  "rowTwoFaults = map_of
     [(''abstract'', ''A cache at the edge''),
      (''domain'', ''Cloud Computing''), (''category'', ''Huge''),
      (''difficulty'', ''Beginner''), (''duration'', ''4 weeks'')]"

text \<open>The record built from \<open>rowOk\<close> for a request without a user.\<close>

definition rowOkData :: ProblemStatement where
  "rowOkData =
     \<lparr> id' = None, title = ''Edge cache'', abstract = ''A cache at the edge'',
       technologies = [''Go'', ''Redis''], domain = ''Cloud Computing'', category = ''Minor'',
       difficulty = ''Beginner'', duration = ''4 weeks'', deliverables = [],
       prerequisites = [], learningOutcomes = [], status = ''Draft'', featured = False,
       tags = [], createdBy = None, viewCount = 0 \<rparr>"

text \<open>A file of two data rows; the second has a blank title.\<close>

definition exampleCsv :: string where
  "exampleCsv =
     ''title,abstract,domain,category,difficulty,duration'' @ CHR 0x0A #
     ''Edge cache,\"A cache, at the edge\",Cloud Computing,Minor,Beginner,4 weeks'' @ CHR 0x0A #
     '' ,A cache at the edge,Cloud Computing,Minor,Beginner,4 weeks''"

text \<open>
  The parsing of a list-typed column as the specification words it: an absent column is
  the empty sequence; otherwise the raw string is split on \<^verbatim>\<open>;\<close>, each part is
  trimmed, and the empty parts are discarded.
\<close>

definition specListColumn :: "string option \<Rightarrow> string list" where
  "specListColumn cell =
     (case cell of
        None \<Rightarrow> []
      | Some raw \<Rightarrow> filter (\<lambda>part. part \<noteq> []) (map trim (splitStr (CHR '';'') raw)))"

text \<open>An error whose message is the empty string, as \<^verbatim>\<open>new Error('')\<close>.\<close>

definition thrownEmpty :: thrown where
  "thrownEmpty = Thrown (Some [])"

text \<open>An error of the storage with a message.\<close>

definition thrownDuplicate :: thrown where
  "thrownDuplicate = Thrown (Some ''E11000 duplicate key error'')"








section \<open>Properties of the identifier allocator\<close>

lemma digitChar_cases:
  "d < 10 \<Longrightarrow> digitChar d \<in> set ''0123456789''"
  unfolding digitChar_def by (rule nth_mem) simp

lemma isDigit_digitChar: "d < 10 \<Longrightarrow> isDigit (digitChar d)"
  unfolding isDigit_def by (rule digitChar_cases)

lemma String_nat_digits: "list_all isDigit (String_nat n)"
proof (induction n rule: String_nat.induct)
  case (1 n)
  show ?case
  proof (cases "n < 10")
    case True
    then show ?thesis by (subst String_nat.simps) (simp add: isDigit_digitChar)
  next
    case False
    with 1 show ?thesis by (subst String_nat.simps) (simp add: isDigit_digitChar)
  qed
qed

lemma String_nat_length:
  "length (String_nat n) = (if n < 10 then 1 else Suc (length (String_nat (n div 10))))"
  by (subst String_nat.simps) simp

lemma String_nat_nonempty: "0 < length (String_nat n)"
  by (subst String_nat_length) simp

text \<open>A number has at most \<open>k + 1\<close> digits exactly when it is below \<open>10 ^ (k + 1)\<close>.\<close>

lemma String_nat_length_le: "length (String_nat n) \<le> Suc k \<longleftrightarrow> n < 10 ^ Suc k"
proof (induction k arbitrary: n)
  case 0
  show ?case using String_nat_nonempty [of "n div 10"]
    by (subst String_nat_length) auto
next
  case (Suc k)
  show ?case
  proof (cases "n < 10")
    case True
    have "(1::nat) \<le> 10 ^ k" by simp
    then have "(100::nat) * 1 \<le> 100 * 10 ^ k" by (rule mult_le_mono2)
    with True have "n < 100 * 10 ^ k" by linarith
    then have "n < 10 ^ Suc (Suc k)" by simp
    with True show ?thesis by (subst String_nat_length) simp
  next
    case False
    have "n div 10 < 10 ^ Suc k \<longleftrightarrow> n < 10 ^ Suc (Suc k)"
      by (simp add: div_less_iff_less_mult mult.commute)
    with False Suc [of "n div 10"] show ?thesis
      by (subst String_nat_length) simp
  qed
qed

lemma String_nat_length_le3: "length (String_nat n) \<le> 3 \<longleftrightarrow> n < 1000"
  using String_nat_length_le [of n 2] by (simp add: numeral_3_eq_3)






lemma domainPrefix_cases:
  "domainPrefix d \<in> set [''AIM'', ''IOT'', ''CLD'', ''WEB'', ''CYS'', ''DAT'', ''NET'', ''MEC'', ''GEN'']"
  by (simp add: domainPrefix_def domainPrefixMap_def)

lemma domainPrefix_length: "length (domainPrefix d) = 3"
  using domainPrefix_cases [of d] by auto

lemma domainPrefix_upper: "list_all isUpper (domainPrefix d)"
  using domainPrefix_cases [of d] by (auto simp: isUpper_def)

lemma String_nat_small: "n < 10 \<Longrightarrow> String_nat n = [digitChar n]"
  by (subst String_nat.simps) simp

lemma countDocuments_replicate:
  "countDocuments (replicate n r) (domain r) = n"
  by (simp add: countDocuments_def)


lemma preSave_needs:
  "needsId (id' r) \<Longrightarrow> id' (preSave db r) = Some (generateId db (domain r))"
  by (simp add: preSave_def)









lemma upper_not_digit: "isUpper c \<Longrightarrow> \<not> isDigit c"
  by (auto simp: isUpper_def isDigit_def)

lemma idFormat_prefix3:
  assumes "isUpper a" "isUpper b" "isUpper c" "list_all isDigit s"
  shows "idFormat (a # b # c # s) \<longleftrightarrow> length s = 3"
  using assms by (simp add: idFormat_def upper_not_digit)

lemma padStart_digits:
  "list_all isDigit s \<Longrightarrow> list_all isDigit (padStart n (CHR ''0'') s)"
proof -
  have z: "isDigit (CHR ''0'')" by (simp add: isDigit_def)
  assume "list_all isDigit s"
  with z show ?thesis by (auto simp: padStart_def list_all_iff)
qed

lemma generateId_format:
  "idFormat (generateId db d) \<longleftrightarrow> countDocuments db d \<le> 998"
proof -
  let ?n = "countDocuments db d + 1"
  let ?s = "padStart 3 (CHR ''0'') (String_nat ?n)"
  have dig: "list_all isDigit ?s"
    by (rule padStart_digits) (rule String_nat_digits)
  have len: "length ?s = 3 \<longleftrightarrow> ?n < 1000"
    using String_nat_length_le3 [of ?n] by (auto simp: padStart_def)
  obtain a b c where p: "domainPrefix d = [a, b, c]"
    using domainPrefix_length [of d]
    by (auto simp: length_Suc_conv numeral_3_eq_3)
  have up: "isUpper a" "isUpper b" "isUpper c"
    using domainPrefix_upper [of d] by (simp_all add: p)
  have "idFormat (domainPrefix d @ ?s) \<longleftrightarrow> length ?s = 3"
    using idFormat_prefix3 [OF up dig] by (simp add: p)
  with len have "idFormat (generateId db d) \<longleftrightarrow> ?n < 1000"
    by (simp only: generateId_def)
  then show ?thesis by simp arith
qed

text \<open>
  C10. The identifier that the hook generates is of the format, and passes the validator
  of the schema, exactly when at most 998 documents of the domain are stored; from 999
  stored documents on, the padded sequence number has four or more digits.
\<close>

theorem generated_id_format_iff:
  "needsId (id' r) \<Longrightarrow>
     id' (preSave db r) = Some (generateId db (domain r)) \<and>
     (idFormat (generateId db (domain r)) \<longleftrightarrow> countDocuments db (domain r) \<le> 998) \<and>
     (idValidator (generateId db (domain r)) \<longleftrightarrow> countDocuments db (domain r) \<le> 998) \<and>
     (999 \<le> countDocuments db (domain r) \<longrightarrow>
        4 \<le> length (padStart 3 (CHR ''0'') (String_nat (countDocuments db (domain r) + 1))))"
proof (intro conjI impI)
  assume n: "needsId (id' r)"
  show "id' (preSave db r) = Some (generateId db (domain r))" using n by (rule preSave_needs)
  show "idFormat (generateId db (domain r)) \<longleftrightarrow> countDocuments db (domain r) \<le> 998"
    by (rule generateId_format)
  have "generateId db (domain r) \<noteq> []"
    using domainPrefix_length [of "domain r"] by (auto simp: generateId_def)
  then show "idValidator (generateId db (domain r)) \<longleftrightarrow> countDocuments db (domain r) \<le> 998"
    by (simp add: idValidator_def generateId_format)
next
  assume "999 \<le> countDocuments db (domain r)"
  then have "\<not> length (String_nat (countDocuments db (domain r) + 1)) \<le> 3"
    by (simp add: String_nat_length_le3)
  then show "4 \<le> length (padStart 3 (CHR ''0'') (String_nat (countDocuments db (domain r) + 1)))"
    by (simp add: padStart_def)
qed

text \<open>
  The first identifier of a domain is accepted; the one generated after 999 documents
  of the domain is rejected by the validator.
\<close>

theorem generated_id_format_iff_witness:
  "needsId (id' exampleDoc) \<and>
   id' (preSave [] exampleDoc) = Some ''CLD001'' \<and> idValidator ''CLD001'' \<and>
   \<not> idValidator (generateId (replicate 999 exampleDoc) (domain exampleDoc))"
proof -
  have n: "needsId (id' exampleDoc)" by (simp add: exampleDoc_def needsId_def)
  have g: "generateId [] (domain exampleDoc) = ''CLD001''"
    by (simp add: generateId_def exampleDoc_def countDocuments_def domainPrefix_def
        domainPrefixMap_def padStart_def String_nat_small digitChar_def numeral_2_eq_2)
  show ?thesis
    using n generated_id_format_iff [OF n, of "[]"]
      generated_id_format_iff [OF n, of "replicate 999 exampleDoc"]
    by (simp add: g countDocuments_replicate) (simp add: countDocuments_def)
qed

section \<open>Properties of the bulk import\<close>

text \<open>
  The steps of the decoder, one rule for each kind of character; with them the
  simplifier reads a line in one pass.
\<close>

lemma scan_quoted_char:
  "c \<noteq> CHR 0x22 \<Longrightarrow> csvScan True cell cells (c # cs) = csvScan True (c # cell) cells cs"
  by simp

lemma scan_quoted_close:
  "d \<noteq> CHR 0x22 \<Longrightarrow>
   csvScan True cell cells (CHR 0x22 # d # ds) = csvScan False cell cells (d # ds)"
  by simp

lemma scan_quoted_last:
  "csvScan True cell cells [CHR 0x22] = csvScan False cell cells []"
  by simp

lemma scan_open: "csvScan False cell cells (CHR 0x22 # cs) = csvScan True cell cells cs"
  by simp

lemma scan_comma:
  "csvScan False cell cells (CHR '','' # cs) = csvScan False [] (rev cell # cells) cs"
  by simp

lemma scan_newline:
  "csvScan False cell cells (CHR 0x0A # cs) = rev (rev cell # cells) # csvScan False [] [] cs"
  by simp

lemma scan_plain_char:
  "c \<noteq> CHR 0x22 \<Longrightarrow> c \<noteq> CHR '','' \<Longrightarrow> c \<noteq> CHR 0x0A \<Longrightarrow>
   csvScan False cell cells (c # cs) = csvScan False (c # cell) cells cs"
  by simp

lemmas scan_rules =
  scan_quoted_char scan_quoted_close scan_quoted_last scan_open scan_comma scan_newline
  scan_plain_char

lemma rev_fold: "rev xs = fold (#) xs []"
  by (rule rev_conv_fold)

lemma blank_Some: "\<not> blank v \<Longrightarrow> \<exists>s. v = Some s"
  by (cases v) (simp_all add: blank_def)

lemma validationErrors_Nil:
  "validationErrors r = [] \<longleftrightarrow>
     \<not> blank (r ''title'') \<and> \<not> blank (r ''abstract'') \<and> \<not> blank (r ''domain'') \<and>
     \<not> blank (r ''category'') \<and> \<not> blank (r ''difficulty'') \<and> \<not> blank (r ''duration'') \<and>
     \<not> notIncluded validDomains (r ''domain'') \<and>
     \<not> notIncluded validCategories (r ''category'') \<and>
     \<not> notIncluded validDifficulties (r ''difficulty'')"
  by (simp add: validationErrors_def)

lemma problemData_valid:
  assumes "validationErrors r = []"
  shows "\<exists>data. problemData user r = Inr data"
proof -
  from assms obtain t a d c f u where
    "r ''title'' = Some t" "r ''abstract'' = Some a" "r ''domain'' = Some d"
    "r ''category'' = Some c" "r ''difficulty'' = Some f" "r ''duration'' = Some u"
    unfolding validationErrors_Nil by (metis blank_Some)
  then show ?thesis by (simp add: problemData_def trimProp_def)
qed

lemma processRow_invalid:
  "validationErrors r \<noteq> [] \<Longrightarrow>
   processRow create user i r (s, res) =
     (s, res\<lparr> errors := errors res @
                 map (\<lambda>m. \<lparr> row = i + 2, field = ''validation'', message = m \<rparr>)
                   (validationErrors r),
               failed := failed res + 1 \<rparr>)"
  by (simp add: processRow_def)

lemma processRow_created:
  "validationErrors r = [] \<Longrightarrow> problemData user r = Inr data \<Longrightarrow> create s data = (None, s') \<Longrightarrow>
   processRow create user i r (s, res) = (s', res\<lparr> imported := imported res + 1 \<rparr>)"
  by (simp add: processRow_def)

lemma processRow_thrown:
  "validationErrors r = [] \<Longrightarrow> problemData user r = Inr data \<Longrightarrow> create s data = (Some e, s') \<Longrightarrow>
   processRow create user i r (s, res) = (s', catchRow (i + 2) e res)"
  by (simp add: processRow_def)

text \<open>Every iteration counts its row once, as imported or as failed.\<close>

lemma processRow_total:
  "imported (snd (processRow create user i r st)) + failed (snd (processRow create user i r st)) =
   Suc (imported (snd st) + failed (snd st))"
  by (simp add: processRow_def Let_def catchRow_def split: sum.splits prod.splits option.splits)

lemma bulkLoop_total:
  "imported (snd (bulkLoop create user i rows st)) + failed (snd (bulkLoop create user i rows st)) =
   imported (snd st) + failed (snd st) + length rows"
  by (induction rows arbitrary: i st) (simp_all add: processRow_total)

lemma bulkLoop_append:
  "bulkLoop create user i (pre @ post) st =
   bulkLoop create user (i + length pre) post (bulkLoop create user i pre st)"
  by (induction pre arbitrary: i st) simp_all

text \<open>The counts of the loop when every valid row is stored.\<close>

lemma bulkLoop_persists:
  "persistsAll create user rows s \<Longrightarrow>
   imported (snd (bulkLoop create user i rows (s, res))) =
     imported res + length (filter (\<lambda>r. validationErrors r = []) rows) \<and>
   failed (snd (bulkLoop create user i rows (s, res))) =
     failed res + length (filter (\<lambda>r. validationErrors r \<noteq> []) rows) \<and>
   length (errors res) + length (filter (\<lambda>r. validationErrors r \<noteq> []) rows)
     \<le> length (errors (snd (bulkLoop create user i rows (s, res))))"
proof (induction rows arbitrary: i s res)
  case Nil
  then show ?case by simp
next
  case (Cons r rows)
  show ?case
  proof (cases "validationErrors r = []")
    case False
    with Cons.prems have p: "persistsAll create user rows s" by simp
    let ?res = "res\<lparr> errors := errors res @
                   map (\<lambda>m. \<lparr> row = i + 2, field = ''validation'', message = m \<rparr>)
                     (validationErrors r),
                 failed := failed res + 1 \<rparr>"
    have step: "processRow create user i r (s, res) = (s, ?res)"
      using False by (rule processRow_invalid)
    obtain n where pos: "length (validationErrors r) = Suc n"
      using False by (cases "validationErrors r") simp_all
    have "imported ?res = imported res" "failed ?res = failed res + 1"
      "length (errors ?res) = length (errors res) + length (validationErrors r)"
      by simp_all
    with pos Cons.IH [OF p, of "Suc i" ?res] False show ?thesis
      unfolding bulkLoop.simps step by simp
  next
    case True
    then obtain data where d: "problemData user r = Inr data"
      using problemData_valid by blast
    with True Cons.prems obtain s' where c: "create s data = (None, s')"
      and p: "persistsAll create user rows s'"
      by (auto split: prod.splits option.splits)
    let ?res = "res\<lparr> imported := imported res + 1 \<rparr>"
    have step: "processRow create user i r (s, res) = (s', ?res)"
      using True d c by (rule processRow_created)
    have "imported ?res = imported res + 1" "failed ?res = failed res"
      "errors ?res = errors res"
      by simp_all
    with Cons.IH [OF p, of "Suc i" ?res] True show ?thesis
      unfolding bulkLoop.simps step by simp
  qed
qed

text \<open>The entries one iteration adds all carry the row number \<open>i + 2\<close>.\<close>

lemma processRow_errors:
  "\<exists>new. errors (snd (processRow create user i r st)) = errors (snd st) @ new \<and>
         (\<forall>e \<in> set new. row e = i + 2)"
  by (auto simp: processRow_def Let_def catchRow_def split: sum.splits prod.splits option.splits)

lemma bulkLoop_rows:
  "\<forall>e \<in> set (errors (snd (bulkLoop create user i rows st))).
     e \<in> set (errors (snd st)) \<or> (i + 2 \<le> row e \<and> row e < i + 2 + length rows)"
proof (induction rows arbitrary: i st)
  case Nil
  show ?case by simp
next
  case (Cons r rows)
  obtain new where n: "errors (snd (processRow create user i r st)) = errors (snd st) @ new"
    and m: "\<forall>e \<in> set new. row e = i + 2"
    using processRow_errors by blast
  show ?case
  proof
    fix e assume "e \<in> set (errors (snd (bulkLoop create user i (r # rows) st)))"
    then have "e \<in> set (errors (snd (processRow create user i r st))) \<or>
        (Suc i + 2 \<le> row e \<and> row e < Suc i + 2 + length rows)"
      using Cons.IH [of "Suc i" "processRow create user i r st"] by simp
    then show "e \<in> set (errors (snd st)) \<or> (i + 2 \<le> row e \<and> row e < i + 2 + length (r # rows))"
      using n m by auto
  qed
qed

lemmas eval_defs =
  validationErrors_def blank_def notIncluded_def trim_def isSpace_def validDomains_def
  validCategories_def validDifficulties_def

lemma rowOk_valid: "validationErrors rowOk = []"
  by (simp add: eval_defs rowOk_def)

lemma rowNoTitle_errors: "validationErrors rowNoTitle = [''Title is required'']"
  by (simp add: eval_defs rowNoTitle_def)

lemma rowTwoFaults_errors:
  "validationErrors rowTwoFaults =
     [''Title is required'', ''Invalid category. Must be one of: Major, Minor, Capstone'']"
  by (simp add: eval_defs rowTwoFaults_def)

lemma rowOk_data: "problemData None rowOk = Inr rowOkData"
  by (simp add: problemData_def trimProp_def rowOk_def rowOkData_def parseArrayField_def
      orEmpty_def trim_def isSpace_def)

lemma persistsAll_createStored: "persistsAll createStored user rows db"
proof (induction rows arbitrary: db)
  case Nil
  show ?case by simp
next
  case (Cons r rows)
  show ?case
  proof (cases "validationErrors r = []")
    case True
    then obtain data where "problemData user r = Inr data"
      using problemData_valid by blast
    with True Cons.IH show ?thesis by (simp add: createStored_def)
  next
    case False
    with Cons.IH show ?thesis by simp
  qed
qed

lemma exampleCsv_rows:
  "csvParse exampleCsv =
     [map_of [(''duration'', ''4 weeks''), (''difficulty'', ''Beginner''),
              (''category'', ''Minor''), (''domain'', ''Cloud Computing''),
              (''abstract'', ''A cache, at the edge''), (''title'', ''Edge cache'')],
      map_of [(''duration'', ''4 weeks''), (''difficulty'', ''Beginner''),
              (''category'', ''Minor''), (''domain'', ''Cloud Computing''),
              (''abstract'', ''A cache at the edge''), (''title'', '' '')]]"
  by (simp add: csvParse_def exampleCsv_def scan_rules rev_fold del: csvScan.simps(2) rev.simps)

text \<open>
  C3. When every row that passes the validation is stored without an error, an import
  of K rows of which J fail the validation reports K - J imported rows, J failed
  rows and at least J error entries. The rows are those the file is decoded into, and
  the handler answers with this result.
\<close>

theorem bulk_import_counts:
  assumes "persistsAll create user rows s"
  shows "imported (snd (importRows create user rows s)) =
           length rows - length (filter (\<lambda>r. validationErrors r \<noteq> []) rows) \<and>
         failed (snd (importRows create user rows s)) =
           length (filter (\<lambda>r. validationErrors r \<noteq> []) rows) \<and>
         length (filter (\<lambda>r. validationErrors r \<noteq> []) rows)
           \<le> length (errors (snd (importRows create user rows s))) \<and>
         (csvParse buf = rows \<longrightarrow>
            fst (bulkUploadProblems create (Some buf) user s) =
              Inr (snd (importRows create user rows s)))"
proof -
  have "length (filter (\<lambda>r. validationErrors r = []) rows) =
        length rows - length (filter (\<lambda>r. validationErrors r \<noteq> []) rows)"
    using sum_length_filter_compl [of "\<lambda>r. validationErrors r \<noteq> []" rows] by simp
  with bulkLoop_persists [OF assms, of 0 "\<lparr> imported = 0, failed = 0, errors = [] \<rparr>"]
  show ?thesis by (simp add: importRows_def bulkUploadProblems_def Let_def)
qed

text \<open>
  A file of two data rows, the second with a blank title.
\<close>

theorem bulk_import_counts_witness:
  "persistsAll createStored None (csvParse exampleCsv) [] \<and>
   length (csvParse exampleCsv) = 2 \<and>
   imported (snd (importRows createStored None (csvParse exampleCsv) [])) = 1 \<and>
   failed (snd (importRows createStored None (csvParse exampleCsv) [])) = 1 \<and>
   1 \<le> length (errors (snd (importRows createStored None (csvParse exampleCsv) []))) \<and>
   fst (bulkUploadProblems createStored (Some exampleCsv) None []) =
     Inr (snd (importRows createStored None (csvParse exampleCsv) []))"
proof -
  have h: "persistsAll createStored None (csvParse exampleCsv) []"
    by (rule persistsAll_createStored)
  have f: "filter (\<lambda>r. validationErrors r \<noteq> []) (csvParse exampleCsv) =
      [map_of [(''duration'', ''4 weeks''), (''difficulty'', ''Beginner''),
              (''category'', ''Minor''), (''domain'', ''Cloud Computing''),
              (''abstract'', ''A cache at the edge''), (''title'', '' '')]]"
    by (simp add: exampleCsv_rows eval_defs)
  have n: "length (csvParse exampleCsv) = 2" by (simp add: exampleCsv_rows)
  show ?thesis
    using h bulk_import_counts [OF h, of exampleCsv] by (simp add: f n)
qed

text \<open>
  C4. A row that fails the validation adds one error entry for each failed check, in the
  order of the checks, is counted once as failed, and is not handed to the storage. The
  number of its messages is the number of failed checks: no check is skipped after an
  earlier one failed. A row without a title and with a category that is not empty and
  not allowed has at least two entries, and is not imported.
\<close>

theorem validation_errors_accumulate:
  "(validationErrors r \<noteq> [] \<longrightarrow>
      processRow create user i r (s, res) =
        (s, res\<lparr> errors := errors res @
                    map (\<lambda>m. \<lparr> row = i + 2, field = ''validation'', message = m \<rparr>)
                      (validationErrors r),
                  failed := failed res + 1 \<rparr>)) \<and>
   length (validationErrors r) =
     length (filter (\<lambda>b. b)
       [blank (r ''title''), blank (r ''abstract''), blank (r ''domain''),
        blank (r ''category''), blank (r ''difficulty''), blank (r ''duration''),
        notIncluded validDomains (r ''domain''),
        notIncluded validCategories (r ''category''),
        notIncluded validDifficulties (r ''difficulty'')]) \<and>
   (blank (r ''title'') \<and> notIncluded validCategories (r ''category'') \<longrightarrow>
      2 \<le> length (validationErrors r) \<and>
      fst (processRow create user i r (s, res)) = s \<and>
      imported (snd (processRow create user i r (s, res))) = imported res \<and>
      failed (snd (processRow create user i r (s, res))) = failed res + 1)"
proof (intro conjI impI)
  assume "validationErrors r \<noteq> []"
  then show "processRow create user i r (s, res) =
        (s, res\<lparr> errors := errors res @
                    map (\<lambda>m. \<lparr> row = i + 2, field = ''validation'', message = m \<rparr>)
                      (validationErrors r),
                  failed := failed res + 1 \<rparr>)"
    by (rule processRow_invalid)
next
  show "length (validationErrors r) =
     length (filter (\<lambda>b. b)
       [blank (r ''title''), blank (r ''abstract''), blank (r ''domain''),
        blank (r ''category''), blank (r ''difficulty''), blank (r ''duration''),
        notIncluded validDomains (r ''domain''),
        notIncluded validCategories (r ''category''),
        notIncluded validDifficulties (r ''difficulty'')])"
    by (simp add: validationErrors_def)
next
  assume a: "blank (r ''title'') \<and> notIncluded validCategories (r ''category'')"
  then show two: "2 \<le> length (validationErrors r)"
    by (simp add: validationErrors_def)
  then have ne: "validationErrors r \<noteq> []" by auto
  show "fst (processRow create user i r (s, res)) = s"
    "imported (snd (processRow create user i r (s, res))) = imported res"
    "failed (snd (processRow create user i r (s, res))) = failed res + 1"
    by (simp_all add: processRow_invalid [OF ne])
qed

text \<open>
  The row without title and with the category Huge, as the first row of a file.
\<close>

theorem validation_errors_accumulate_witness:
  "blank (rowTwoFaults ''title'') \<and> notIncluded validCategories (rowTwoFaults ''category'') \<and>
   processRow createStored None 0 rowTwoFaults ([], emptyResults) =
     ([], \<lparr> imported = 0, failed = 1,
            errors = [\<lparr> row = 2, field = ''validation'', message = ''Title is required'' \<rparr>,
                      \<lparr> row = 2, field = ''validation'',
                        message = ''Invalid category. Must be one of: Major, Minor, Capstone'' \<rparr>] \<rparr>)"
  using validation_errors_accumulate [of rowTwoFaults createStored None 0 "[]" emptyResults]
  by (simp add: rowTwoFaults_errors emptyResults_def)
    (simp add: rowTwoFaults_def blank_def notIncluded_def validCategories_def trim_def isSpace_def)

text \<open>
  C5, as stated, fails for an error whose message is empty: the entry does not carry the
  empty text of the error but the fixed text of the handler.
\<close>

theorem persistence_error_message_counterexample:
  "validationErrors rowOk = [] \<and>
   problemData None rowOk = Inr rowOkData \<and>
   createRejecting thrownEmpty [] rowOkData = (Some thrownEmpty, []) \<and>
   message_of thrownEmpty = Some [] \<and>
   errors (snd (processRow (createRejecting thrownEmpty) None 0 rowOk ([], emptyResults))) =
     [\<lparr> row = 2, field = ''database'', message = ''Failed to create problem statement'' \<rparr>] \<and>
   ''Failed to create problem statement'' \<noteq> []"
  by (simp add: rowOk_valid rowOk_data processRow_def createRejecting_def catchRow_def
      errorMessage_def thrownEmpty_def emptyResults_def)

text \<open>
  C5, amended. When a row passes the validation and the storage throws, the iteration
  adds exactly one entry with the field \<open>database\<close> and counts the row once as failed.
  The message of the entry is the message of the error when that is a string that is not
  empty, and the text \<open>Failed to create problem statement\<close> otherwise. The loop goes
  on with the next row, and every row of the batch is counted as imported or as failed.
\<close>

theorem persistence_error_caught:
  assumes "validationErrors r = []" and "problemData user r = Inr data"
    and "create s data = (Some e, s')"
  shows "processRow create user i r (s, res) =
           (s', res\<lparr> errors := errors res @
                       [\<lparr> row = i + 2, field = ''database'', message = errorMessage e \<rparr>],
                     failed := failed res + 1 \<rparr>) \<and>
         errorMessage e =
           (case message_of e of
              None \<Rightarrow> ''Failed to create problem statement''
            | Some m \<Rightarrow> if m = [] then ''Failed to create problem statement'' else m) \<and>
         bulkLoop create user i (r # rest) (s, res) =
           bulkLoop create user (Suc i) rest
             (s', res\<lparr> errors := errors res @
                         [\<lparr> row = i + 2, field = ''database'', message = errorMessage e \<rparr>],
                       failed := failed res + 1 \<rparr>) \<and>
         imported (snd (bulkLoop create user i (r # rest) (s, res))) +
         failed (snd (bulkLoop create user i (r # rest) (s, res))) =
           imported res + failed res + Suc (length rest)"
proof -
  have step: "processRow create user i r (s, res) =
           (s', res\<lparr> errors := errors res @
                       [\<lparr> row = i + 2, field = ''database'', message = errorMessage e \<rparr>],
                     failed := failed res + 1 \<rparr>)"
    using assms by (simp add: processRow_def catchRow_def)
  have total: "imported (snd (bulkLoop create user i (r # rest) (s, res))) +
         failed (snd (bulkLoop create user i (r # rest) (s, res))) =
           imported res + failed res + Suc (length rest)"
    using bulkLoop_total [of create user i "r # rest" "(s, res)"] by simp
  show ?thesis
    using total by (simp add: step errorMessage_def)
qed

text \<open>
  Two valid rows and a storage that rejects both with a duplicate key error.
\<close>

theorem persistence_error_caught_witness:
  "validationErrors rowOk = [] \<and> problemData None rowOk = Inr rowOkData \<and>
   createRejecting thrownDuplicate [] rowOkData = (Some thrownDuplicate, []) \<and>
   snd (importRows (createRejecting thrownDuplicate) None [rowOk, rowOk] []) =
     \<lparr> imported = 0, failed = 2,
       errors = [\<lparr> row = 2, field = ''database'', message = ''E11000 duplicate key error'' \<rparr>,
                 \<lparr> row = 3, field = ''database'', message = ''E11000 duplicate key error'' \<rparr>] \<rparr>"
proof -
  have c: "createRejecting thrownDuplicate [] rowOkData = (Some thrownDuplicate, [])"
    by (simp add: createRejecting_def)
  have m: "errorMessage thrownDuplicate = ''E11000 duplicate key error''"
    by (simp add: errorMessage_def thrownDuplicate_def)
  show ?thesis
    using persistence_error_caught [where r = rowOk and user = None and data = rowOkData
        and create = "createRejecting thrownDuplicate" and s = "[]" and e = thrownDuplicate
        and s' = "[]" and i = 0 and rest = "[rowOk]"
        and res = "\<lparr> imported = 0, failed = 0, errors = [] \<rparr>"]
      persistence_error_caught [where r = rowOk and user = None and data = rowOkData
        and create = "createRejecting thrownDuplicate" and s = "[]" and e = thrownDuplicate
        and s' = "[]" and i = 1 and rest = "[]"
        and res = "\<lparr> imported = 0, failed = 1,
           errors = [\<lparr> row = 2, field = ''database'', message = ''E11000 duplicate key error'' \<rparr>] \<rparr>"]
    by (simp add: rowOk_valid rowOk_data c m importRows_def numeral_2_eq_2 numeral_3_eq_3)
qed

text \<open>
  C6, as stated, fails: the entry for a blank title has the field \<open>validation\<close>, not
  the name of the column.
\<close>

theorem required_field_name_counterexample:
  "blank (rowNoTitle ''title'') \<and>
   errors (snd (processRow createStored None 0 rowNoTitle ([], emptyResults))) =
     [\<lparr> row = 2, field = ''validation'', message = ''Title is required'' \<rparr>] \<and>
   ''validation'' \<noteq> ''title''"
  by (simp add: processRow_invalid rowNoTitle_errors emptyResults_def)
    (simp add: rowNoTitle_def blank_def trim_def isSpace_def)

lemma validation_entry:
  "m \<in> set (validationErrors r) \<Longrightarrow>
   \<lparr> row = i + 2, field = ''validation'', message = m \<rparr>
     \<in> set (errors (snd (processRow create user i r (s, res))))"
proof -
  assume m: "m \<in> set (validationErrors r)"
  then have "validationErrors r \<noteq> []" by auto
  with m show ?thesis by (simp add: processRow_invalid)
qed

text \<open>
  C6, amended. For each of the six required columns that is missing or blank, the row
  has an error entry whose field is the fixed text \<open>validation\<close> and whose message
  names the column. Every entry of a row that fails the validation has the field
  \<open>validation\<close>.
\<close>

theorem required_field_entry:
  "(blank (r ''title'') \<longrightarrow>
      \<lparr> row = i + 2, field = ''validation'', message = ''Title is required'' \<rparr>
        \<in> set (errors (snd (processRow create user i r (s, res))))) \<and>
   (blank (r ''abstract'') \<longrightarrow>
      \<lparr> row = i + 2, field = ''validation'', message = ''Abstract is required'' \<rparr>
        \<in> set (errors (snd (processRow create user i r (s, res))))) \<and>
   (blank (r ''domain'') \<longrightarrow>
      \<lparr> row = i + 2, field = ''validation'', message = ''Domain is required'' \<rparr>
        \<in> set (errors (snd (processRow create user i r (s, res))))) \<and>
   (blank (r ''category'') \<longrightarrow>
      \<lparr> row = i + 2, field = ''validation'', message = ''Category is required'' \<rparr>
        \<in> set (errors (snd (processRow create user i r (s, res))))) \<and>
   (blank (r ''difficulty'') \<longrightarrow>
      \<lparr> row = i + 2, field = ''validation'', message = ''Difficulty is required'' \<rparr>
        \<in> set (errors (snd (processRow create user i r (s, res))))) \<and>
   (blank (r ''duration'') \<longrightarrow>
      \<lparr> row = i + 2, field = ''validation'', message = ''Duration is required'' \<rparr>
        \<in> set (errors (snd (processRow create user i r (s, res))))) \<and>
   (validationErrors r \<noteq> [] \<longrightarrow>
      map field (drop (length (errors res)) (errors (snd (processRow create user i r (s, res))))) =
        replicate (length (validationErrors r)) ''validation'')"
proof (intro conjI impI)
  assume "blank (r ''title'')"
  then have "''Title is required'' \<in> set (validationErrors r)"
    by (simp add: validationErrors_def)
  then show "\<lparr> row = i + 2, field = ''validation'', message = ''Title is required'' \<rparr>
        \<in> set (errors (snd (processRow create user i r (s, res))))"
    by (rule validation_entry)
next
  assume "blank (r ''abstract'')"
  then have "''Abstract is required'' \<in> set (validationErrors r)"
    by (simp add: validationErrors_def)
  then show "\<lparr> row = i + 2, field = ''validation'', message = ''Abstract is required'' \<rparr>
        \<in> set (errors (snd (processRow create user i r (s, res))))"
    by (rule validation_entry)
next
  assume "blank (r ''domain'')"
  then have "''Domain is required'' \<in> set (validationErrors r)"
    by (simp add: validationErrors_def)
  then show "\<lparr> row = i + 2, field = ''validation'', message = ''Domain is required'' \<rparr>
        \<in> set (errors (snd (processRow create user i r (s, res))))"
    by (rule validation_entry)
next
  assume "blank (r ''category'')"
  then have "''Category is required'' \<in> set (validationErrors r)"
    by (simp add: validationErrors_def)
  then show "\<lparr> row = i + 2, field = ''validation'', message = ''Category is required'' \<rparr>
        \<in> set (errors (snd (processRow create user i r (s, res))))"
    by (rule validation_entry)
next
  assume "blank (r ''difficulty'')"
  then have "''Difficulty is required'' \<in> set (validationErrors r)"
    by (simp add: validationErrors_def)
  then show "\<lparr> row = i + 2, field = ''validation'', message = ''Difficulty is required'' \<rparr>
        \<in> set (errors (snd (processRow create user i r (s, res))))"
    by (rule validation_entry)
next
  assume "blank (r ''duration'')"
  then have "''Duration is required'' \<in> set (validationErrors r)"
    by (simp add: validationErrors_def)
  then show "\<lparr> row = i + 2, field = ''validation'', message = ''Duration is required'' \<rparr>
        \<in> set (errors (snd (processRow create user i r (s, res))))"
    by (rule validation_entry)
next
  assume "validationErrors r \<noteq> []"
  then show "map field (drop (length (errors res))
        (errors (snd (processRow create user i r (s, res))))) =
        replicate (length (validationErrors r)) ''validation''"
    by (simp add: processRow_invalid comp_def map_replicate_const)
qed

text \<open>
  The row with a blank title.
\<close>

theorem required_field_entry_witness:
  "blank (rowNoTitle ''title'') \<and> validationErrors rowNoTitle \<noteq> [] \<and>
   \<lparr> row = 2, field = ''validation'', message = ''Title is required'' \<rparr>
     \<in> set (errors (snd (processRow createStored None 0 rowNoTitle ([], emptyResults))))"
proof -
  have b: "blank (rowNoTitle ''title'')"
    by (simp add: rowNoTitle_def blank_def trim_def isSpace_def)
  show ?thesis
    using b required_field_entry [of rowNoTitle 0 createStored None "[]" emptyResults]
    by (simp add: rowNoTitle_errors numeral_2_eq_2)
qed

text \<open>
  C7, as stated, fails: the entry for the first data row has the row number 2, not 1 + 2.
\<close>

theorem row_number_counterexample:
  "[rowNoTitle] ! (1 - 1) = rowNoTitle \<and>
   map row (errors (snd (importRows createStored None [rowNoTitle] []))) = [2] \<and>
   (2::nat) \<noteq> 1 + 2"
  by (simp add: importRows_def processRow_invalid rowNoTitle_errors)

text \<open>
  C7, amended. The entries that the iteration at index \<open>i\<close> adds have the row number
  \<open>i + 2\<close>, and the row that follows \<open>pre\<close> is processed at the index
  \<open>length pre\<close>: the data row at the 1-indexed position k has the row number k + 1,
  the header being row 1. Every row number of the result is at least 2 and at most the
  number of rows plus 1.
\<close>

theorem row_number:
  "(\<exists>new. errors (snd (processRow create user i r st)) = errors (snd st) @ new \<and>
          (\<forall>e \<in> set new. row e = i + 2)) \<and>
   importRows create user (pre @ r # post) s =
     bulkLoop create user (length pre + 1) post
       (processRow create user (length pre) r (importRows create user pre s)) \<and>
   (\<forall>e \<in> set (errors (snd (importRows create user rows s))).
      2 \<le> row e \<and> row e \<le> length rows + 1)"
proof (intro conjI)
  show "\<exists>new. errors (snd (processRow create user i r st)) = errors (snd st) @ new \<and>
          (\<forall>e \<in> set new. row e = i + 2)"
    by (rule processRow_errors)
next
  show "importRows create user (pre @ r # post) s =
     bulkLoop create user (length pre + 1) post
       (processRow create user (length pre) r (importRows create user pre s))"
    by (simp add: importRows_def bulkLoop_append)
next
  show "\<forall>e \<in> set (errors (snd (importRows create user rows s))).
      2 \<le> row e \<and> row e \<le> length rows + 1"
    using bulkLoop_rows [of create user 0 rows "(s, \<lparr> imported = 0, failed = 0, errors = [] \<rparr>)"]
    by (auto simp: importRows_def)
qed

text \<open>
  A valid row followed by the row with a blank title.
\<close>

theorem row_number_witness:
  "errors (snd (importRows createStored None [rowOk, rowNoTitle] [])) =
     [\<lparr> row = 3, field = ''validation'', message = ''Title is required'' \<rparr>] \<and>
   importRows createStored None ([rowOk] @ rowNoTitle # []) [] =
     bulkLoop createStored None (length [rowOk] + 1) []
       (processRow createStored None (length [rowOk]) rowNoTitle
          (importRows createStored None [rowOk] []))"
proof -
  have "errors (snd (importRows createStored None [rowOk, rowNoTitle] [])) =
     [\<lparr> row = 3, field = ''validation'', message = ''Title is required'' \<rparr>]"
    by (simp add: importRows_def processRow_invalid rowNoTitle_errors
        processRow_created [OF rowOk_valid rowOk_data] createStored_def)
  then show ?thesis
    using row_number [of createStored None 1 rowNoTitle "importRows createStored None [rowOk] []"
        "[rowOk]" "[]" "[]" "[rowOk, rowNoTitle]"]
    by simp
qed

section \<open>Properties of the list-typed columns\<close>

text \<open>A string trims to the empty string exactly when it consists of white space.\<close>

lemma trim_Nil_iff: "trim s = [] \<longleftrightarrow> (\<forall>c \<in> set s. isSpace c)"
proof
  assume "trim s = []"
  then have all: "\<forall>c \<in> set (dropWhile isSpace s). isSpace c"
    by (simp add: trim_def dropWhile_eq_Nil_conv)
  have "dropWhile isSpace s = []"
  proof (rule ccontr)
    assume ne: "dropWhile isSpace s \<noteq> []"
    then have "\<not> isSpace (hd (dropWhile isSpace s))" by (rule hd_dropWhile)
    moreover have "hd (dropWhile isSpace s) \<in> set (dropWhile isSpace s)" using ne by simp
    ultimately show False using all by blast
  qed
  then show "\<forall>c \<in> set s. isSpace c" by (simp add: dropWhile_eq_Nil_conv)
next
  assume "\<forall>c \<in> set s. isSpace c"
  then show "trim s = []" by (auto simp: trim_def dest: set_dropWhileD)
qed

lemma splitStr_nonempty: "splitStr sep s \<noteq> []"
  by (induction s) (simp_all split: list.splits)

text \<open>The parts of a split string consist of characters of the string.\<close>

lemma splitStr_parts: "p \<in> set (splitStr sep s) \<Longrightarrow> set p \<subseteq> set s"
proof (induction s arbitrary: p)
  case Nil
  then show ?case by simp
next
  case (Cons c cs)
  show ?case
  proof (cases "c = sep")
    case True
    with Cons show ?thesis by auto
  next
    case False
    obtain q qs where q: "splitStr sep cs = q # qs"
      using splitStr_nonempty [of sep cs] by (cases "splitStr sep cs") auto
    with False Cons.prems have "p = c # q \<or> p \<in> set qs" by auto
    then show ?thesis
    proof
      assume "p = c # q"
      moreover have "set q \<subseteq> set cs" using Cons.IH [of q] q by simp
      ultimately show ?thesis by auto
    next
      assume "p \<in> set qs"
      then have "set p \<subseteq> set cs" using Cons.IH [of p] q by simp
      then show ?thesis by auto
    qed
  qed
qed

lemma blank_field_no_parts:
  assumes "trim s = []"
  shows "filter (\<lambda>part. part \<noteq> []) (map trim (splitStr sep s)) = []"
proof -
  have "trim p = []" if "p \<in> set (splitStr sep s)" for p
    using splitStr_parts [OF that] assms unfolding trim_Nil_iff by blast
  then show ?thesis by (simp add: filter_empty_conv)
qed

lemma parseArrayField_split:
  "parseArrayField s = filter (\<lambda>part. part \<noteq> []) (map trim (splitStr (CHR '';'') s))"
proof (cases "trim s = []")
  case True
  then show ?thesis by (simp add: parseArrayField_def blank_field_no_parts)
next
  case False
  then have "s \<noteq> []" by (auto simp: trim_def)
  with False show ?thesis by (simp add: parseArrayField_def)
qed

lemma parseArrayField_column: "parseArrayField (orEmpty cell) = specListColumn cell"
  by (cases cell) (simp_all add: orEmpty_def specListColumn_def parseArrayField_split trim_def)

text \<open>
  C9. Each of the five list-typed columns of the record of a row is the raw cell split
  on \<^verbatim>\<open>;\<close>, with each part trimmed and the empty parts discarded; an absent
  column and an empty string give the empty list, and \<^verbatim>\<open>Python;TensorFlow; React \<close>
  gives Python, TensorFlow, React.
\<close>

theorem list_columns_parsed:
  "(problemData user r = Inr data \<longrightarrow>
      technologies data = specListColumn (r ''technologies'') \<and>
      deliverables data = specListColumn (r ''deliverables'') \<and>
      prerequisites data = specListColumn (r ''prerequisites'') \<and>
      learningOutcomes data = specListColumn (r ''learningOutcomes'') \<and>
      tags data = specListColumn (r ''tags'')) \<and>
   parseArrayField s = filter (\<lambda>part. part \<noteq> []) (map trim (splitStr (CHR '';'') s)) \<and>
   parseArrayField (orEmpty None) = [] \<and>
   parseArrayField (orEmpty (Some [])) = [] \<and>
   parseArrayField ''Python;TensorFlow; React '' = [''Python'', ''TensorFlow'', ''React'']"
proof (intro conjI impI)
  assume d: "problemData user r = Inr data"
  then have "data = \<lparr> id' = None, title = title data, abstract = abstract data,
      technologies = parseArrayField (orEmpty (r ''technologies'')),
      domain = domain data, category = category data, difficulty = difficulty data,
      duration = duration data,
      deliverables = parseArrayField (orEmpty (r ''deliverables'')),
      prerequisites = parseArrayField (orEmpty (r ''prerequisites'')),
      learningOutcomes = parseArrayField (orEmpty (r ''learningOutcomes'')),
      status = status data, featured = featured data,
      tags = parseArrayField (orEmpty (r ''tags'')),
      createdBy = user, viewCount = 0 \<rparr>"
    by (auto simp: problemData_def split: sum.splits)
  then have f: "technologies data = parseArrayField (orEmpty (r ''technologies''))"
    "deliverables data = parseArrayField (orEmpty (r ''deliverables''))"
    "prerequisites data = parseArrayField (orEmpty (r ''prerequisites''))"
    "learningOutcomes data = parseArrayField (orEmpty (r ''learningOutcomes''))"
    "tags data = parseArrayField (orEmpty (r ''tags''))"
    by (metis ProblemStatement.select_convs)+
  show "technologies data = specListColumn (r ''technologies'')"
    "deliverables data = specListColumn (r ''deliverables'')"
    "prerequisites data = specListColumn (r ''prerequisites'')"
    "learningOutcomes data = specListColumn (r ''learningOutcomes'')"
    "tags data = specListColumn (r ''tags'')"
    by (simp_all only: f parseArrayField_column)
next
  show "parseArrayField s = filter (\<lambda>part. part \<noteq> []) (map trim (splitStr (CHR '';'') s))"
    by (rule parseArrayField_split)
next
  show "parseArrayField (orEmpty None) = []" by (simp add: orEmpty_def parseArrayField_def)
next
  show "parseArrayField (orEmpty (Some [])) = []" by (simp add: orEmpty_def parseArrayField_def)
next
  show "parseArrayField ''Python;TensorFlow; React '' = [''Python'', ''TensorFlow'', ''React'']"
    by (simp add: parseArrayField_def trim_def isSpace_def)
qed

text \<open>
  The technologies and the absent tags of the example row.
\<close>

theorem list_columns_parsed_witness:
  "problemData None rowOk = Inr rowOkData \<and>
   technologies rowOkData = [''Go'', ''Redis''] \<and>
   specListColumn (rowOk ''technologies'') = [''Go'', ''Redis''] \<and>
   specListColumn (rowOk ''tags'') = []"
  using list_columns_parsed [of None rowOk rowOkData "[]"]
  by (simp add: rowOk_data) (simp add: rowOkData_def)

section \<open>The template, uploaded again\<close>



















end
